theory Spec2Isabelle
  imports Complex_Main "HOL-Library.Log_Nat" "HOL-Library.Monad_Syntax"
begin

section \<open>JavaScript values and errors\<close>

text \<open>
  A thrown JavaScript error: its constructor name, its message and the error attached
  as its cause, if any. \<^verbatim>\<open>new Error(msg)\<close> attaches none.
\<close>

datatype error = JsError string string "error option"

abbreviation Error :: "string \<Rightarrow> error" where
  "Error msg \<equiv> JsError ''Error'' msg None"

abbreviation TypeError :: "string \<Rightarrow> error" where
  "TypeError msg \<equiv> JsError ''TypeError'' msg None"

text \<open>
  The Number type: IEEE 754 binary64. A finite double is the rational it denotes
  (the sign of zero is not kept).
\<close>

datatype js_number = Finite rat | NaN | Infinity | NegInfinity

text \<open>
  A value as \<^verbatim>\<open>JSON.parse\<close> builds it, and \<^verbatim>\<open>undefined\<close>. An object is the
  list of its own properties; a key is looked up with \<open>map_of\<close>.
\<close>

datatype js_value =
    JUndefined
  | JNull
  | JBoolean bool
  | JNumber js_number
  | JString string
  | JArray "js_value list"
  | JObject "(string \<times> js_value) list"

text \<open>
  Reading \<^verbatim>\<open>v.key\<close>: a TypeError on \<^verbatim>\<open>undefined\<close> and \<^verbatim>\<open>null\<close>, the own
  property of an object, and \<^verbatim>\<open>undefined\<close> for a key that the value does not have
  (none of the keys read below is a property of the built-in prototypes).
\<close>

fun get_property :: "js_value \<Rightarrow> string \<Rightarrow> error + js_value" where
  "get_property JUndefined key = Inl (TypeError ''Cannot read properties of undefined'')"
| "get_property JNull key = Inl (TypeError ''Cannot read properties of null'')"
| "get_property (JObject props) key =
     (case map_of props key of None \<Rightarrow> Inr JUndefined | Some v \<Rightarrow> Inr v)"
| "get_property v key = Inr JUndefined"

text \<open>
  \<^verbatim>\<open>Promise.all\<close>: the results in the order of the promises when all resolve, a
  rejection when one rejects. Which rejection wins depends on timing; the first in
  the list stands for it, and every caller below replaces it by its own error.
\<close>

fun Promise_all :: "(error + 'a) list \<Rightarrow> error + 'a list" where
  "Promise_all [] = Inr []"
| "Promise_all (Inl e # ps) = Inl e"
| "Promise_all (Inr v # ps) =
     (case Promise_all ps of Inl e \<Rightarrow> Inl e | Inr vs \<Rightarrow> Inr (v # vs))"

text \<open>
  \<^verbatim>\<open>try { ... } catch (error) { console.error(...); throw new Error(errorMsg) }\<close>:
  whatever was thrown is logged and a new error with the fixed message is thrown.
  The console is not modelled.
\<close>

definition catch_rethrow :: "string \<Rightarrow> error + 'a \<Rightarrow> error + 'a" where
  "catch_rethrow errorMsg r = (case r of Inl e \<Rightarrow> Inl (Error errorMsg) | Inr v \<Rightarrow> Inr v)"

section \<open>Numbers, decimal text and dates\<close>

text \<open>
  Rounding a rational to the nearest double, ties to even: \<open>binade x\<close> is the exponent
  \<open>e\<close> with \<open>2^e \<le> x < 2^(e+1)\<close>; the doubles of that binade are the multiples of
  \<open>2^(e-52)\<close> (of \<open>2^(-1074)\<close> below the normal range); a result of \<open>2^1024\<close> or more is
  \<^verbatim>\<open>Infinity\<close>.
\<close>

definition round_half_even :: "rat \<Rightarrow> int" where
  "round_half_even x =
     (let f = \<lfloor>x\<rfloor>; d = x - of_int f
      in if d < 1 / 2 then f else if 1 / 2 < d then f + 1 else if even f then f else f + 1)"

definition binade :: "rat \<Rightarrow> int" where
  "binade x =
     (case quotient_of x of
        (p, q) \<Rightarrow> let e = bitlen p - bitlen q in if 2 powi e \<le> x then e else e - 1)"

definition round64_pos :: "rat \<Rightarrow> js_number" where
  "round64_pos x =
     (let e = max (binade x) (- 1022);
          ulp = 2 powi (e - 52);
          r = of_int (round_half_even (x / ulp)) * ulp
      in if r < 2 ^ 1024 then Finite r else Infinity)"

fun js_negate :: "js_number \<Rightarrow> js_number" where
  "js_negate (Finite x) = Finite (- x)"
| "js_negate NaN = NaN"
| "js_negate Infinity = NegInfinity"
| "js_negate NegInfinity = Infinity"

definition round64 :: "rat \<Rightarrow> js_number" where
  "round64 x =
     (if x = 0 then Finite 0
      else if 0 < x then round64_pos x
      else js_negate (round64_pos (- x)))"

text \<open>The product of two Numbers (\<^verbatim>\<open>x * y\<close>).\<close>

fun js_sign :: "js_number \<Rightarrow> int" where
  "js_sign (Finite x) = (if x = 0 then 0 else if 0 < x then 1 else - 1)"
| "js_sign NaN = 0"
| "js_sign Infinity = 1"
| "js_sign NegInfinity = - 1"

fun js_times :: "js_number \<Rightarrow> js_number \<Rightarrow> js_number" where
  "js_times (Finite x) (Finite y) = round64 (x * y)"
| "js_times x y =
     (if x = NaN \<or> y = NaN \<or> js_sign x * js_sign y = 0 then NaN
      else if 0 < js_sign x * js_sign y then Infinity else NegInfinity)"

text \<open>
  A Date holds its time value: integral milliseconds since the epoch, or none
  (Invalid Date). \<^verbatim>\<open>new Date(v)\<close> on a Number clips it: not finite or beyond
  8.64e15 in magnitude gives none, any other value is truncated towards zero.
\<close>

datatype js_Date = Date "int option"

fun new_Date :: "js_number \<Rightarrow> js_Date" where
  "new_Date (Finite v) =
     (if 8640000000000000 < \<bar>v\<bar> then Date None
      else Date (Some (if 0 \<le> v then \<lfloor>v\<rfloor> else \<lceil>v\<rceil>)))"
| "new_Date v = Date None"

text \<open>
  Decimal text. \<open>nat_toString\<close> is \<^verbatim>\<open>toString\<close> on a non-negative bigint,
  \<open>digits_value\<close> the number that a string of digits denotes.
\<close>

definition is_digit :: "char \<Rightarrow> bool" where
  "is_digit c = (48 \<le> (of_char c :: nat) \<and> (of_char c :: nat) \<le> 57)"

definition digit_value :: "char \<Rightarrow> nat" where
  "digit_value c = of_char c - 48"

definition digit_char :: "nat \<Rightarrow> char" where
  "digit_char d = char_of (48 + d)"

definition digits_value :: "string \<Rightarrow> nat" where
  "digits_value s = foldl (\<lambda>acc c. 10 * acc + digit_value c) 0 s"

function nat_toString :: "nat \<Rightarrow> string" where
  "nat_toString n =
     (if n < 10 then [digit_char n] else nat_toString (n div 10) @ [digit_char (n mod 10)])"
  by pat_completeness auto
termination
  by (relation "measure id") auto

declare nat_toString.simps [simp del]

definition bigint_toString :: "int \<Rightarrow> string" where
  "bigint_toString v = (if v < 0 then CHR ''-'' # nat_toString (nat (- v)) else nat_toString (nat v))"

definition padStart :: "nat \<Rightarrow> char \<Rightarrow> string \<Rightarrow> string" where
  "padStart targetLength c s = replicate (targetLength - length s) c @ s"

definition strip_trailing_zeros :: "string \<Rightarrow> string" where
  "strip_trailing_zeros s = rev (dropWhile (\<lambda>c. c = CHR ''0'') (rev s))"

text \<open>
  viem's \<^verbatim>\<open>formatUnits(value, decimals)\<close>: the digits of the value, padded on the left
  to \<open>decimals\<close> places, cut that many places from the right, trailing zeros of the
  fraction removed.
\<close>

definition formatUnits :: "int \<Rightarrow> nat \<Rightarrow> string" where
  "formatUnits v decimals =
     (let display = bigint_toString v;
          negative = (take 1 display = ''-'');
          display = (if negative then drop 1 display else display);
          display = padStart decimals (CHR ''0'') display;
          integer = take (length display - decimals) display;
          fraction = drop (length display - decimals) display;
          fraction = strip_trailing_zeros fraction
      in (if negative then ''-'' else []) @ (if integer = [] then ''0'' else integer) @
         (if fraction = [] then [] else ''.'' @ fraction))"

text \<open>
  The number that an unsigned decimal literal without exponent denotes
  (\<^verbatim>\<open>12\<close>, \<^verbatim>\<open>12.\<close>, \<^verbatim>\<open>12.5\<close>, \<^verbatim>\<open>.5\<close>), none for any other string.
\<close>

definition decimal_literal :: "string \<Rightarrow> rat option" where
  "decimal_literal s =
     (let i = takeWhile is_digit s in
      case dropWhile is_digit s of
        [] \<Rightarrow> if i = [] then None else Some (of_nat (digits_value i))
      | c # f \<Rightarrow>
          if c = CHR ''.'' \<and> list_all is_digit f \<and> (i \<noteq> [] \<or> f \<noteq> [])
          then Some (of_nat (digits_value i) + of_nat (digits_value f) / 10 ^ length f)
          else None)"

section \<open>The data model (website/src/services/services.ts)\<close>

record RawBet =
  id' :: string
  contractAddress :: string
  creator :: string
  participant :: string
  amount :: string
  token :: string
  message :: string
  judge :: string
  createdTime :: string
  validUntil :: string

text \<open>
  \<^verbatim>\<open>BetStatus\<close> is a union of five string literals; \<^verbatim>\<open>status.result as BetStatus\<close>
  asserts it of the string that the chain returned and checks nothing.
\<close>

type_synonym BetStatus = string

record FormattedBet =
  betId :: js_number
  contractAddress :: string
  creator :: string
  creatorAlias :: string
  participant :: string
  participantAlias :: string
  amount :: js_number
  bigintAmount :: int
  token :: string
  message :: string
  judge :: string
  judgeAlias :: string
  validUntil :: js_Date
  createdTime :: js_Date
  status :: "BetStatus option"
  winner :: "string option"
  judgementReason :: "string option"

text \<open>
  \<^verbatim>\<open>pageInfo\<close> is copied from the raw page as it is, so it is kept as the JSON value
  (\<open>JUndefined\<close> when the object has no such property).
\<close>

record FormattedBets =
  items :: "FormattedBet list"
  pageInfo :: js_value

record request =
  method' :: string
  headers :: "(string \<times> string) list"
  body :: string

record response =
  httpStatus :: nat
  bodyText :: string

record page =
  afterCursor :: "string option"
  beforeCursor :: "string option"

datatype abi_constant = BetAbi | betAbi

record contract_call =
  address :: string
  abi :: abi_constant
  functionName :: string

text \<open>
  One entry of what \<^verbatim>\<open>readContracts\<close> resolves with: the decoded return value of the
  call, or the error of a call that failed; \<^verbatim>\<open>.result\<close> is undefined on a failure.
\<close>

datatype read_result = success string | failure error

fun result :: "read_result \<Rightarrow> string option" where
  "result (success v) = Some v"
| "result (failure e) = None"

text \<open>
  What the services call and do not define: the network (\<^verbatim>\<open>fetch\<close>), the JSON
  built-ins, the configured endpoint, the four query generators of \<^verbatim>\<open>./queries\<close>,
  the alias lookup of \<^verbatim>\<open>@/lib/utils\<close> and wagmi's \<^verbatim>\<open>readContracts\<close>. Each call
  either throws or rejects (\<open>Inl\<close>) or returns (\<open>Inr\<close>). \<open>Number_other\<close> and
  \<open>BigInt_other\<close> are the conversions of a string that is not an unsigned decimal
  literal (signs, exponents, white space, other radixes), and \<open>formatBet_untyped\<close> is
  what \<^verbatim>\<open>formatBet\<close> does with an item that does not have the type \<^verbatim>\<open>RawBet\<close>,
  which the response is asserted, not checked, to have.
\<close>

record env =
  BET_API_URL :: string
  fetch :: "string \<Rightarrow> request \<Rightarrow> error + response"
  JSON_stringify :: "js_value \<Rightarrow> string"
  JSON_parse :: "string \<Rightarrow> error + js_value"
  generateBetQuery :: "js_number \<Rightarrow> error + string"
  generateBetsQuery :: "js_number list \<Rightarrow> error + string"
  generateRecentBetsQuery :: "js_number \<Rightarrow> page option \<Rightarrow> error + string"
  generateUserBetsQuery :: "string \<Rightarrow> js_number \<Rightarrow> page option \<Rightarrow> error + string"
  getPreferredAlias :: "string \<Rightarrow> error + string"
  readContracts :: "contract_call list \<Rightarrow> error + read_result \<times> read_result \<times> read_result"
  Number_other :: "string \<Rightarrow> js_number"
  BigInt_other :: "string \<Rightarrow> error + int"
  formatBet_untyped :: "js_value \<Rightarrow> error + FormattedBet"

text \<open>\<^verbatim>\<open>Number(s)\<close> and \<^verbatim>\<open>BigInt(s)\<close> on a string.\<close>

definition Number :: "env \<Rightarrow> string \<Rightarrow> js_number" where
  "Number env s = (case decimal_literal s of Some q \<Rightarrow> round64 q | None \<Rightarrow> Number_other env s)"

definition BigInt :: "env \<Rightarrow> string \<Rightarrow> error + int" where
  "BigInt env s =
     (if s \<noteq> [] \<and> list_all is_digit s then Inr (int (digits_value s)) else BigInt_other env s)"

section \<open>The GraphQL client and the raw fetchers\<close>

text \<open>The request that \<^verbatim>\<open>queryGqlApi\<close> posts for a query.\<close>

definition gql_request :: "env \<Rightarrow> string \<Rightarrow> request" where
  "gql_request env query =
     \<lparr>method' = ''POST'',
      headers = [(''Content-Type'', ''application/json'')],
      body = JSON_stringify env (JObject [(''query'', JString query)])\<rparr>"

text \<open>
  \<^verbatim>\<open>res.json()\<close> parses the body of the response; nothing reads \<^verbatim>\<open>res.status\<close>
  or \<^verbatim>\<open>res.ok\<close>.
\<close>

definition queryGqlApi :: "env \<Rightarrow> string \<Rightarrow> string \<Rightarrow> error + js_value" where
  "queryGqlApi env url query =
     (case fetch env url (gql_request env query) of
        Inl e \<Rightarrow> Inl e
      | Inr res \<Rightarrow> JSON_parse env (bodyText res))"

text \<open>\<^verbatim>\<open>result.data.bet\<close> and \<^verbatim>\<open>result.data.bets\<close>.\<close>

definition data_field :: "js_value \<Rightarrow> string \<Rightarrow> error + js_value" where
  "data_field result' key =
     (case get_property result' ''data'' of
        Inl e \<Rightarrow> Inl e
      | Inr d \<Rightarrow> get_property d key)"

text \<open>
  The parsed values on which \<^verbatim>\<open>result.data.bet\<close> throws: \<^verbatim>\<open>result\<close> or
  \<^verbatim>\<open>result.data\<close> is undefined or null.
\<close>

definition nullish :: "js_value \<Rightarrow> bool" where
  "nullish v = (v = JUndefined \<or> v = JNull)"

definition data_unreadable :: "js_value \<Rightarrow> bool" where
  "data_unreadable r =
     (nullish r \<or> (case get_property r ''data'' of Inl e \<Rightarrow> True | Inr d \<Rightarrow> nullish d))"

text \<open>
  The three statements of each raw fetcher's \<^verbatim>\<open>try\<close> block: the generated query
  (or what its generator threw), the fetch, the extraction.
\<close>

definition fetch_field :: "env \<Rightarrow> error + string \<Rightarrow> string \<Rightarrow> error + js_value" where
  "fetch_field env generated key =
     (case generated of
        Inl e \<Rightarrow> Inl e
      | Inr query \<Rightarrow>
          (case queryGqlApi env (BET_API_URL env) query of
             Inl e \<Rightarrow> Inl e
           | Inr result' \<Rightarrow> data_field result' key))"

definition getRawBetFromId :: "env \<Rightarrow> js_number \<Rightarrow> error + js_value" where
  "getRawBetFromId env betId' =
     catch_rethrow ''Failed to get raw bet details from bet id''
       (fetch_field env (generateBetQuery env betId') ''bet'')"

definition getRawBetsFromIds :: "env \<Rightarrow> js_number list \<Rightarrow> error + js_value" where
  "getRawBetsFromIds env betIds =
     catch_rethrow ''Failed to get raw bets from bet ids''
       (fetch_field env (generateBetsQuery env betIds) ''bets'')"

definition getRecentRawBets :: "env \<Rightarrow> js_number \<Rightarrow> page option \<Rightarrow> error + js_value" where
  "getRecentRawBets env numBets pg =
     catch_rethrow ''Failed to get recent raw bets''
       (fetch_field env (generateRecentBetsQuery env numBets pg) ''bets'')"

definition getUserRawBets ::
  "env \<Rightarrow> string \<Rightarrow> js_number \<Rightarrow> page option \<Rightarrow> error + js_value" where
  "getUserRawBets env user numBets pg =
     catch_rethrow ''Failed to get raw bet details for a user''
       (fetch_field env (generateUserBetsQuery env user numBets pg) ''bets'')"

section \<open>Formatting a bet\<close>

text \<open>The three reads that \<^verbatim>\<open>formatBet\<close> batches against the bet's own contract.\<close>

definition read_calls :: "string \<Rightarrow> contract_call list" where
  "read_calls a =
     [\<lparr>address = a, abi = BetAbi, functionName = ''getStatus''\<rparr>,
      \<lparr>address = a, abi = BetAbi, functionName = ''winner''\<rparr>,
      \<lparr>address = a, abi = BetAbi, functionName = ''judgementReason''\<rparr>]"

text \<open>
  The four operations given to \<^verbatim>\<open>Promise.all\<close>, then the object that is returned;
  \<^verbatim>\<open>BigInt(rawBet.amount)\<close> throws a SyntaxError on text that is no integer. All of
  it stands inside the \<^verbatim>\<open>try\<close> block.
\<close>

definition formatBet :: "env \<Rightarrow> RawBet \<Rightarrow> error + FormattedBet" where
  "formatBet env rawBet =
     catch_rethrow ''Failed to format bets from raw bets''
       (case getPreferredAlias env (RawBet.creator rawBet) of
          Inl e \<Rightarrow> Inl e
        | Inr creatorAlias' \<Rightarrow>
       (case getPreferredAlias env (RawBet.participant rawBet) of
          Inl e \<Rightarrow> Inl e
        | Inr participantAlias' \<Rightarrow>
       (case getPreferredAlias env (RawBet.judge rawBet) of
          Inl e \<Rightarrow> Inl e
        | Inr judgeAlias' \<Rightarrow>
       (case readContracts env (read_calls (RawBet.contractAddress rawBet)) of
          Inl e \<Rightarrow> Inl e
        | Inr (status', winner', judgementReason') \<Rightarrow>
       (case BigInt env (RawBet.amount rawBet) of
          Inl e \<Rightarrow> Inl e
        | Inr bigintAmount' \<Rightarrow>
            Inr \<lparr>betId = Number env (id' rawBet),
                 contractAddress = RawBet.contractAddress rawBet,
                 creator = RawBet.creator rawBet,
                 creatorAlias = creatorAlias',
                 participant = RawBet.participant rawBet,
                 participantAlias = participantAlias',
                 amount = Number env (formatUnits bigintAmount' 6),
                 bigintAmount = bigintAmount',
                 token = RawBet.token rawBet,
                 message = RawBet.message rawBet,
                 judge = RawBet.judge rawBet,
                 judgeAlias = judgeAlias',
                 validUntil = new_Date (js_times (Number env (RawBet.validUntil rawBet)) (Finite 1000)),
                 createdTime = new_Date (js_times (Number env (RawBet.createdTime rawBet)) (Finite 1000)),
                 status = result status',
                 winner = result winner',
                 judgementReason = result judgementReason'\<rparr>)))))"

section \<open>The aggregate fetchers\<close>

text \<open>
  An item of a page read at the type \<^verbatim>\<open>RawBet\<close>: an object whose ten fields are
  strings. \<open>js_of_RawBet\<close> is the JSON object of a \<^verbatim>\<open>RawBet\<close>.
\<close>

definition string_property :: "(string \<times> js_value) list \<Rightarrow> string \<Rightarrow> string option" where
  "string_property props key = (case map_of props key of Some (JString s) \<Rightarrow> Some s | _ \<Rightarrow> None)"

fun RawBet_of :: "js_value \<Rightarrow> RawBet option" where
  "RawBet_of (JObject props) =
     do {
       a \<leftarrow> string_property props ''id'';
       b \<leftarrow> string_property props ''contractAddress'';
       c \<leftarrow> string_property props ''creator'';
       d \<leftarrow> string_property props ''participant'';
       e \<leftarrow> string_property props ''amount'';
       f \<leftarrow> string_property props ''token'';
       g \<leftarrow> string_property props ''message'';
       h \<leftarrow> string_property props ''judge'';
       i \<leftarrow> string_property props ''createdTime'';
       j \<leftarrow> string_property props ''validUntil'';
       Some \<lparr>id' = a, contractAddress = b, creator = c, participant = d, amount = e,
             token = f, message = g, judge = h, createdTime = i, validUntil = j\<rparr>
     }"
| "RawBet_of v = None"

definition js_of_RawBet :: "RawBet \<Rightarrow> js_value" where
  "js_of_RawBet b =
     JObject
       [(''id'', JString (id' b)),
        (''contractAddress'', JString (RawBet.contractAddress b)),
        (''creator'', JString (RawBet.creator b)),
        (''participant'', JString (RawBet.participant b)),
        (''amount'', JString (RawBet.amount b)),
        (''token'', JString (RawBet.token b)),
        (''message'', JString (RawBet.message b)),
        (''judge'', JString (RawBet.judge b)),
        (''createdTime'', JString (RawBet.createdTime b)),
        (''validUntil'', JString (RawBet.validUntil b))]"

definition formatBet_item :: "env \<Rightarrow> js_value \<Rightarrow> error + FormattedBet" where
  "formatBet_item env bet =
     (case RawBet_of bet of Some rawBet \<Rightarrow> formatBet env rawBet | None \<Rightarrow> formatBet_untyped env bet)"






section \<open>The bot's transaction endpoint\<close>

record contract_parameters =
  abi :: abi_constant
  to :: string
  chainId :: string
  functionName :: string

text \<open>
  What the handler calls and does not define: viem's \<^verbatim>\<open>isAddress\<close> and the
  framework's \<^verbatim>\<open>c.contract\<close>, which builds the response from its parameters
  (or throws).
\<close>

record 'r bot_env =
  isAddress :: "string \<Rightarrow> bool"
  contract :: "contract_parameters \<Rightarrow> error + 'r"

datatype safe_parse = ParseSuccess string | ParseFailure error

text \<open>
  \<^verbatim>\<open>z.custom<Address>(isAddress, "Invalid Address").safeParse(x)\<close>: success with
  the data itself when the check holds, a failure carrying the issue otherwise.
\<close>

definition safeParse :: "'r bot_env \<Rightarrow> string \<Rightarrow> safe_parse" where
  "safeParse env x =
     (if isAddress env x then ParseSuccess x else ParseFailure (Error ''Invalid Address''))"

definition retrieveTxn :: "'r bot_env \<Rightarrow> string \<Rightarrow> error + 'r" where
  "retrieveTxn env a =
     (case safeParse env a of
        ParseFailure issue \<Rightarrow> Inl (Error [])
      | ParseSuccess parsedAddress \<Rightarrow>
          contract env
            \<lparr>abi = betAbi, to = parsedAddress, chainId = ''eip155:42161'',
             functionName = ''retrieveTokens''\<rparr>)"

section \<open>A concrete environment and bet\<close>

text \<open>
  An instance of everything the services call, and one raw bet, at which the theorems
  below are evaluated: the indexer answers 200 with an empty object, aliases resolve
  to the address itself, the \<^verbatim>\<open>getStatus\<close> read resolves with pending and the other
  two reads fail.
\<close>

definition example_env :: env where
  "example_env =
     \<lparr>BET_API_URL = ''https://bets.example/graphql'',
      fetch = (\<lambda>url req. Inr \<lparr>httpStatus = 200, bodyText = ''{}''\<rparr>),
      JSON_stringify = (\<lambda>v. ''query''),
      JSON_parse = (\<lambda>s. if s = ''{}'' then Inr (JObject [])
                          else Inl (JsError ''SyntaxError'' ''Unexpected token'' None)),
      generateBetQuery = (\<lambda>i. Inr ''bet''),
      generateBetsQuery = (\<lambda>is. Inr ''bets''),
      generateRecentBetsQuery = (\<lambda>n p. Inr ''recent''),
      generateUserBetsQuery = (\<lambda>u n p. Inr ''user''),
      getPreferredAlias = (\<lambda>a. Inr a),
      readContracts = (\<lambda>calls. Inr (success ''pending'',
                                      failure (Error ''reverted''),
                                      failure (Error ''reverted''))),
      Number_other = (\<lambda>s. NaN),
      BigInt_other = (\<lambda>s. Inl (JsError ''SyntaxError'' ''Cannot convert to a BigInt'' None)),
      formatBet_untyped = (\<lambda>v. Inl (TypeError ''Cannot convert undefined to a BigInt''))\<rparr>"

definition example_bet :: RawBet where
  "example_bet =
     \<lparr>id' = ''5'',
      contractAddress = ''0x00000000219ab540356cbb839cbe05303d7705fa'',
      creator = ''0x1111111111111111111111111111111111111111'',
      participant = ''0x2222222222222222222222222222222222222222'',
      amount = ''1500000'',
      token = ''0x3333333333333333333333333333333333333333'',
      message = ''rain tomorrow'',
      judge = ''0x4444444444444444444444444444444444444444'',
      createdTime = ''1690000000'',
      validUntil = ''1700000000''\<rparr>"

text \<open>The example bet as \<open>formatBet\<close> returns it in the example environment.\<close>

definition example_formatted :: FormattedBet where
  "example_formatted =
     \<lparr>betId = Finite 5,
      contractAddress = ''0x00000000219ab540356cbb839cbe05303d7705fa'',
      creator = ''0x1111111111111111111111111111111111111111'',
      creatorAlias = ''0x1111111111111111111111111111111111111111'',
      participant = ''0x2222222222222222222222222222222222222222'',
      participantAlias = ''0x2222222222222222222222222222222222222222'',
      amount = Finite (3 / 2),
      bigintAmount = 1500000,
      token = ''0x3333333333333333333333333333333333333333'',
      message = ''rain tomorrow'',
      judge = ''0x4444444444444444444444444444444444444444'',
      judgeAlias = ''0x4444444444444444444444444444444444444444'',
      validUntil = Date (Some 1700000000000),
      createdTime = Date (Some 1690000000000),
      status = Some ''pending'',
      winner = None,
      judgementReason = None\<rparr>"

text \<open>
  Bodies that the indexer may answer with, and \<^verbatim>\<open>JSON.parse\<close> on them: a page
  without bets, a page holding the example bet, an answer whose \<^verbatim>\<open>data\<close> is null,
  and a gateway's error page, which is no JSON.
\<close>

definition example_pageInfo :: js_value where
  "example_pageInfo =
     JObject [(''hasPreviousPage'', JBoolean False), (''startCursor'', JString ''YQ''),
              (''hasNextPage'', JBoolean False), (''endCursor'', JString ''Yg'')]"

definition empty_page :: js_value where
  "empty_page = JObject [(''items'', JArray []), (''pageInfo'', example_pageInfo)]"

definition example_page :: js_value where
  "example_page =
     JObject [(''items'', JArray [js_of_RawBet example_bet]), (''pageInfo'', example_pageInfo)]"

definition empty_page_text :: string where
  \<open>empty_page_text =
     ''{"data":{"bets":{"items":[],"pageInfo":{"hasPreviousPage":false,"startCursor":"YQ","hasNextPage":false,"endCursor":"Yg"}}}}''\<close>

definition example_page_text :: string where
  \<open>example_page_text =
     ''{"data":{"bets":{"items":[{"id":"5","contractAddress":"0x00000000219ab540356cbb839cbe05303d7705fa","creator":"0x1111111111111111111111111111111111111111","participant":"0x2222222222222222222222222222222222222222","amount":"1500000","token":"0x3333333333333333333333333333333333333333","message":"rain tomorrow","judge":"0x4444444444444444444444444444444444444444","createdTime":"1690000000","validUntil":"1700000000"}],"pageInfo":{"hasPreviousPage":false,"startCursor":"YQ","hasNextPage":false,"endCursor":"Yg"}}}}''\<close>

definition null_data_text :: string where
  \<open>null_data_text = ''{"data":null}''\<close>

definition bad_gateway_text :: string where
  "bad_gateway_text = ''<html><body>502 Bad Gateway</body></html>''"

definition example_JSON_parse :: "string \<Rightarrow> error + js_value" where
  "example_JSON_parse s =
     (case map_of
        [(''{}'', JObject []),
         (empty_page_text, JObject [(''data'', JObject [(''bets'', empty_page)])]),
         (example_page_text, JObject [(''data'', JObject [(''bets'', example_page)])]),
         (null_data_text, JObject [(''data'', JNull)])] s of
        Some v \<Rightarrow> Inr v
      | None \<Rightarrow> Inl (JsError ''SyntaxError'' ''Unexpected token'' None))"

text \<open>The example environment with the indexer answering a given status and body.\<close>

definition answering :: "nat \<Rightarrow> string \<Rightarrow> env" where
  "answering code txt =
     example_env
       \<lparr>fetch := (\<lambda>url req. Inr \<lparr>httpStatus = code, bodyText = txt\<rparr>),
        JSON_parse := example_JSON_parse\<rparr>"

text \<open>The example bet with an amount of 2^53 + 1 whole tokens.\<close>

definition big_bet :: RawBet where
  "big_bet = example_bet\<lparr>RawBet.amount := ''9007199254740993000000''\<rparr>"

text \<open>
  A bot environment: the address check accepts \<^verbatim>\<open>0x\<close> and forty lower-case
  hexadecimal digits, and \<^verbatim>\<open>c.contract\<close> answers with its parameters.
\<close>

definition is_lower_hex :: "char \<Rightarrow> bool" where
  "is_lower_hex c = (is_digit c \<or> 97 \<le> (of_char c :: nat) \<and> (of_char c :: nat) \<le> 102)"

definition example_bot_env :: "contract_parameters bot_env" where
  "example_bot_env =
     \<lparr>isAddress = (\<lambda>s. length s = 42 \<and> take 2 s = ''0x'' \<and> list_all is_lower_hex (drop 2 s)),
      contract = Inr\<rparr>"

text \<open>The example environment with the alias service, or the RPC endpoint, down.\<close>

definition alias_down_env :: env where
  "alias_down_env = example_env\<lparr>getPreferredAlias := (\<lambda>a. Inl (Error ''alias lookup failed''))\<rparr>"

definition rpc_down_env :: env where
  "rpc_down_env = example_env\<lparr>readContracts := (\<lambda>calls. Inl (Error ''HTTP request failed''))\<rparr>"

section \<open>Rounding and decimal text: lemmas\<close>

lemma binade_bounds:
  assumes "0 < x"
  shows "2 powi binade x \<le> x \<and> x < 2 powi (binade x + 1)"
proof -
  obtain p q where pq: "quotient_of x = (p, q)" by (cases "quotient_of x")
  have q: "0 < q" using pq quotient_of_denom_pos by blast
  have x: "x = of_int p / of_int q" using pq quotient_of_div by blast
  have p: "0 < p" using assms q x by (simp add: zero_less_divide_iff)
  define bp where "bp = bitlen p"
  define bq where "bq = bitlen q"
  have bp1: "1 \<le> bp" using p by (simp add: bp_def bitlen_alt_def)
  have bq1: "1 \<le> bq" using q by (simp add: bq_def bitlen_alt_def)
  have pb: "2 ^ nat (bp - 1) \<le> p" "p < 2 ^ nat bp"
    using bitlen_bounds[OF p] by (simp_all add: bp_def)
  have qb: "2 ^ nat (bq - 1) \<le> q" "q < 2 ^ nat bq"
    using bitlen_bounds[OF q] by (simp_all add: bq_def)
  have e1: "(2::rat) powi (bp - 1) = of_int (2 ^ nat (bp - 1))"
    using bp1 by (simp add: power_int_def)
  have e2: "(2::rat) powi bp = of_int (2 ^ nat bp)"
    using bp1 by (simp add: power_int_def)
  have e3: "(2::rat) powi (bq - 1) = of_int (2 ^ nat (bq - 1))"
    using bq1 by (simp add: power_int_def)
  have e4: "(2::rat) powi bq = of_int (2 ^ nat bq)"
    using bq1 by (simp add: power_int_def)
  have pr: "(2::rat) powi (bp - 1) \<le> of_int p" "of_int p < (2::rat) powi bp"
    unfolding e1 e2 using pb by (simp_all only: of_int_le_iff of_int_less_iff)
  have qr: "(2::rat) powi (bq - 1) \<le> of_int q" "of_int q < (2::rat) powi bq"
    unfolding e3 e4 using qb by (simp_all only: of_int_le_iff of_int_less_iff)
  have pos: "(0::rat) < 2 powi (bq - 1)" "(0::rat) < of_int q" "(0::rat) \<le> of_int p"
       "(0::rat) \<le> 2 powi (bp - 1)"
    using p q by simp_all
  have "x < 2 powi bp / 2 powi (bq - 1)"
    unfolding x using pr(2) qr(1) p q bq1 by (intro frac_less) simp_all
  also have "\<dots> = 2 powi (bp - (bq - 1))"
    by (simp add: power_int_diff)
  finally have up: "x < 2 powi (bp - bq + 1)"
    by (simp add: algebra_simps)
  have "(2::rat) powi (bp - 1 - bq) = 2 powi (bp - 1) / 2 powi bq"
    by (simp add: power_int_diff)
  also have "\<dots> \<le> x"
    unfolding x using pr(1) qr(2) p q by (intro frac_le) simp_all
  finally have lo: "2 powi (bp - bq - 1) \<le> x"
    by (simp add: algebra_simps)
  show ?thesis
    using up lo by (simp add: binade_def pq bp_def bq_def Let_def)
qed


lemma round_half_even_of_int: "round_half_even (of_int m) = m"
  by (simp add: round_half_even_def)

lemma round64_pos_exact:
  assumes m: "0 < m" "m < 2 ^ 53" and j: "- 1074 \<le> j"
    and lt: "of_int m * 2 powi j < (2::rat) ^ 1024"
  shows "round64_pos (of_int m * 2 powi j) = Finite (of_int m * 2 powi j)"
proof -
  define x :: rat where "x = of_int m * 2 powi j"
  define E where "E = max (binade x) (- 1022)"
  have xpos: "0 < x" using m by (simp add: x_def)
  have "x < 2 ^ 53 * 2 powi j"
  proof -
    have "(of_int m :: rat) < of_int (2 ^ 53)" using m(2) by (simp only: of_int_less_iff)
    then show ?thesis by (simp add: x_def)
  qed
  also have "\<dots> = 2 powi (53 + j)"
    by (simp add: power_int_add)
  finally have b: "2 powi binade x < (2::rat) powi (53 + j)"
    using binade_bounds[OF xpos] by simp
  have "binade x < 53 + j"
  proof (rule ccontr)
    assume "\<not> binade x < 53 + j"
    then have "53 + j \<le> binade x" by simp
    then have "(2::rat) powi (53 + j) \<le> 2 powi binade x"
      by (intro power_int_increasing) simp_all
    with b show False by simp
  qed
  then have k: "0 \<le> j - (E - 52)" using j by (simp add: E_def)
  have "x / 2 powi (E - 52) = of_int m * 2 powi (j - (E - 52))"
    by (simp add: x_def power_int_diff)
  also have "\<dots> = of_int (m * 2 ^ nat (j - (E - 52)))"
    using k by (simp add: power_int_def)
  finally have q: "x / 2 powi (E - 52) = of_int (m * 2 ^ nat (j - (E - 52)))" .
  have "of_int (round_half_even (x / 2 powi (E - 52))) * 2 powi (E - 52) = x"
    unfolding q round_half_even_of_int unfolding q[symmetric] by simp
  then show ?thesis
    using lt by (simp add: round64_pos_def Let_def E_def[symmetric] x_def[symmetric])
qed

lemma round64_exact:
  assumes "\<bar>m\<bar> < 2 ^ 53" "- 1074 \<le> j" "\<bar>of_int m * 2 powi j\<bar> < (2::rat) ^ 1024"
  shows "round64 (of_int m * 2 powi j) = Finite (of_int m * 2 powi j)"
proof -
  consider "m = 0" | "0 < m" | "m < 0" by linarith
  then show ?thesis
  proof cases
    case 1
    then show ?thesis by (simp add: round64_def)
  next
    case 2
    then have "0 < of_int m * (2::rat) powi j" by simp
    then show ?thesis
      using round64_pos_exact[of m j] assms 2 by (simp add: round64_def)
  next
    case 3
    then have neg: "of_int m * (2::rat) powi j < 0" by (simp add: mult_neg_pos)
    have "round64_pos (of_int (- m) * 2 powi j) = Finite (of_int (- m) * 2 powi j)"
      using assms 3 neg by (intro round64_pos_exact) simp_all
    then show ?thesis
      using neg by (simp add: round64_def)
  qed
qed

lemma round64_of_int:
  assumes "\<bar>n\<bar> < 2 ^ 53"
  shows "round64 (of_int n) = Finite (of_int n)"
proof -
  have "\<bar>rat_of_int n\<bar> < of_int (2 ^ 53)"
    using assms by (simp only: of_int_abs[symmetric] of_int_less_iff)
  also have "\<dots> < 2 ^ 1024" by simp
  finally show ?thesis
    using round64_exact[of n 0] assms by simp
qed

lemma digit_value_char: "d < 10 \<Longrightarrow> digit_value (digit_char d) = d"
  by (simp add: digit_value_def digit_char_def)

lemma is_digit_char: "d < 10 \<Longrightarrow> is_digit (digit_char d)"
  by (simp add: is_digit_def digit_char_def)

lemma foldl_digits:
  "foldl (\<lambda>acc c. 10 * acc + digit_value c) a s = a * 10 ^ length s + digits_value s"
  unfolding digits_value_def
proof (induction s arbitrary: a rule: rev_induct)
  case Nil
  then show ?case by simp
next
  case (snoc c s)
  have A: "foldl (\<lambda>acc c. 10 * acc + digit_value c) a s =
           a * 10 ^ length s + foldl (\<lambda>acc c. 10 * acc + digit_value c) 0 s"
    by (rule snoc.IH)
  show ?case
    unfolding foldl_append foldl_Cons foldl_Nil A
    by (simp add: algebra_simps)
qed

lemma digits_value_append:
  "digits_value (xs @ ys) = digits_value xs * 10 ^ length ys + digits_value ys"
  using foldl_digits[of "digits_value xs" ys]
  by (simp add: digits_value_def)

lemma digits_value_Nil: "digits_value [] = 0"
  by (simp add: digits_value_def)

lemma digits_value_single: "digits_value [c] = digit_value c"
  by (simp add: digits_value_def)

lemma nat_toString_value: "digits_value (nat_toString n) = n"
proof (induction n rule: nat_toString.induct)
  case (1 n)
  show ?case
  proof (cases "n < 10")
    case True
    then show ?thesis
      by (subst nat_toString.simps) (simp add: digits_value_single digit_value_char)
  next
    case False
    then have "digits_value (nat_toString n) =
        digits_value (nat_toString (n div 10)) * 10 + digit_value (digit_char (n mod 10))"
      by (subst nat_toString.simps) (simp add: digits_value_append digits_value_single)
    then show ?thesis using 1 False by (simp add: digit_value_char)
  qed
qed

lemma nat_toString_digits: "list_all is_digit (nat_toString n)"
proof (induction n rule: nat_toString.induct)
  case (1 n)
  show ?case
  proof (cases "n < 10")
    case True
    then show ?thesis by (subst nat_toString.simps) (simp add: is_digit_char)
  next
    case False
    then show ?thesis using 1 by (subst nat_toString.simps) (simp add: is_digit_char)
  qed
qed

lemma nat_toString_nonempty: "nat_toString n \<noteq> []"
  by (subst nat_toString.simps) simp


lemma digits_value_zeros: "digits_value (replicate k (CHR ''0'')) = 0"
  by (induction k) (simp_all add: digits_value_def digit_value_def)

lemma is_digit_zero: "is_digit (CHR ''0'')"
  by (simp add: is_digit_def)

lemma not_is_digit_dot: "\<not> is_digit (CHR ''.'')"
  by (simp add: is_digit_def)

lemma strip_trailing_zeros_decomp:
  "s = strip_trailing_zeros s @ replicate (length s - length (strip_trailing_zeros s)) (CHR ''0'')"
proof -
  define t where "t = takeWhile (\<lambda>c. c = CHR ''0'') (rev s)"
  have t: "t = replicate (length t) (CHR ''0'')"
    unfolding t_def by (rule replicate_length_same[symmetric]) (auto dest: set_takeWhileD)
  have "rev s = t @ dropWhile (\<lambda>c. c = CHR ''0'') (rev s)"
    by (simp add: t_def)
  then have "rev (rev s) = rev (t @ dropWhile (\<lambda>c. c = CHR ''0'') (rev s))"
    by (rule arg_cong)
  then have s: "s = strip_trailing_zeros s @ rev t"
    by (simp add: strip_trailing_zeros_def)
  then have "length s = length (strip_trailing_zeros s) + length t"
    by (metis length_append length_rev)
  then have "length t = length s - length (strip_trailing_zeros s)" by simp
  moreover have "rev t = replicate (length t) (CHR ''0'')"
    by (subst t) simp
  ultimately show ?thesis using s by simp
qed

lemma strip_trailing_zeros_digits:
  "list_all is_digit s \<Longrightarrow> list_all is_digit (strip_trailing_zeros s)"
  by (metis list_all_append strip_trailing_zeros_decomp)

lemma decimal_literal_int_frac:
  assumes "list_all is_digit i" "i \<noteq> []" "list_all is_digit f"
  shows "decimal_literal (i @ (if f = [] then [] else ''.'' @ f)) =
         Some (of_nat (digits_value i) + of_nat (digits_value f) / 10 ^ length f)"
proof (cases "f = []")
  case True
  have tw: "takeWhile is_digit i = i" and dw: "dropWhile is_digit i = []"
    using assms(1) by (simp_all add: list_all_iff)
  have "decimal_literal i = Some (of_nat (digits_value i))"
    unfolding decimal_literal_def Let_def tw dw using assms(2) by simp
  then show ?thesis using True by (simp add: digits_value_Nil)
next
  case False
  have tw: "takeWhile is_digit (i @ CHR ''.'' # f) = i"
    and dw: "dropWhile is_digit (i @ CHR ''.'' # f) = CHR ''.'' # f"
    using assms(1) by (simp_all add: list_all_iff not_is_digit_dot)
  have "decimal_literal (i @ CHR ''.'' # f) =
      Some (of_nat (digits_value i) + of_nat (digits_value f) / 10 ^ length f)"
    unfolding decimal_literal_def Let_def tw dw using assms by simp
  then show ?thesis using False by simp
qed

lemma formatUnits_nonneg:
  "formatUnits (int n) decimals =
     (let display = padStart decimals (CHR ''0'') (nat_toString n);
          integer = take (length display - decimals) display;
          fraction = strip_trailing_zeros (drop (length display - decimals) display)
      in (if integer = [] then ''0'' else integer) @
         (if fraction = [] then [] else ''.'' @ fraction))"
proof -
  have "take 1 (nat_toString n) \<noteq> ''-''"
  proof
    assume a: "take 1 (nat_toString n) = ''-''"
    have "is_digit (CHR ''-'')"
    proof -
      have "CHR ''-'' \<in> set (take 1 (nat_toString n))" using a by simp
      then have "CHR ''-'' \<in> set (nat_toString n)" by (rule in_set_takeD)
      then show ?thesis using nat_toString_digits[of n] by (simp add: list_all_iff)
    qed
    then show False by (simp add: is_digit_def)
  qed
  then show ?thesis
    by (simp add: formatUnits_def bigint_toString_def Let_def)
qed

lemma formatUnits_exact:
  "decimal_literal (formatUnits (int n) decimals) = Some (of_nat n / 10 ^ decimals)"
proof -
  define display where "display = padStart decimals (CHR ''0'') (nat_toString n)"
  define integer where "integer = take (length display - decimals) display"
  define fraction where "fraction = drop (length display - decimals) display"
  define fraction' where "fraction' = strip_trailing_zeros fraction"
  define integer' where "integer' = (if integer = [] then ''0'' else integer)"
  define z where "z = length fraction - length fraction'"
  have dd: "list_all is_digit display"
    using nat_toString_digits[of n]
    by (auto simp: display_def padStart_def is_digit_zero list_all_iff)
  have dv: "digits_value display = n"
    by (simp add: display_def padStart_def digits_value_append digits_value_zeros nat_toString_value)
  have len: "decimals \<le> length display"
    by (simp add: display_def padStart_def)
  have split: "display = integer @ fraction"
    by (simp add: integer_def fraction_def)
  have lf: "length fraction = decimals"
    using len by (simp add: fraction_def)
  have n: "n = digits_value integer * 10 ^ decimals + digits_value fraction"
    using dv by (simp add: split digits_value_append lf)
  have id: "list_all is_digit integer" "list_all is_digit fraction"
    using dd by (simp_all add: split)
  have fd: "list_all is_digit fraction'"
    using id(2) by (simp add: fraction'_def strip_trailing_zeros_digits)
  have f: "fraction = fraction' @ replicate z (CHR ''0'')"
    unfolding fraction'_def z_def by (rule strip_trailing_zeros_decomp)
  have fv: "digits_value fraction = digits_value fraction' * 10 ^ z"
    by (subst f) (simp add: digits_value_append digits_value_zeros)
  have lz: "decimals = length fraction' + z"
    using lf by (subst (asm) f) simp
  have i': "list_all is_digit integer'" "integer' \<noteq> []" "digits_value integer' = digits_value integer"
    using id(1) by (simp_all add: integer'_def is_digit_zero digits_value_def digit_value_def)
  have "formatUnits (int n) decimals = integer' @ (if fraction' = [] then [] else ''.'' @ fraction')"
    by (simp add: formatUnits_nonneg Let_def display_def integer_def fraction_def fraction'_def
          integer'_def)
  then have "decimal_literal (formatUnits (int n) decimals) =
      Some (of_nat (digits_value integer') + of_nat (digits_value fraction') / 10 ^ length fraction')"
    using decimal_literal_int_frac[OF i'(1) i'(2) fd] by simp
  also have "of_nat (digits_value integer') + of_nat (digits_value fraction') / 10 ^ length fraction'
      = (of_nat n :: rat) / 10 ^ decimals"
  proof -
    have "(of_nat n :: rat) / 10 ^ decimals =
        (of_nat (digits_value integer) * 10 ^ decimals + of_nat (digits_value fraction' * 10 ^ z))
          / 10 ^ decimals"
      by (subst n) (simp add: fv)
    also have "\<dots> = of_nat (digits_value integer) +
        of_nat (digits_value fraction') * 10 ^ z / 10 ^ (length fraction' + z)"
      by (simp add: add_divide_distrib lz[symmetric])
    also have "\<dots> = of_nat (digits_value integer) + of_nat (digits_value fraction') / 10 ^ length fraction'"
      by (simp add: power_add)
    finally show ?thesis by (simp add: i'(3))
  qed
  finally show ?thesis .
qed

section \<open>The services: lemmas\<close>

lemma decimal_literal_digits:
  assumes "s \<noteq> []" "list_all is_digit s"
  shows "decimal_literal s = Some (of_nat (digits_value s))"
proof -
  have tw: "takeWhile is_digit s = s" and dw: "dropWhile is_digit s = []"
    using assms(2) by (simp_all add: list_all_iff)
  show ?thesis
    unfolding decimal_literal_def Let_def tw dw using assms(1) by simp
qed

lemma Number_digits:
  assumes "s \<noteq> []" "list_all is_digit s" "digits_value s < 2 ^ 53"
  shows "Number env s = Finite (of_nat (digits_value s))"
proof -
  have "\<bar>int (digits_value s)\<bar> < 2 ^ 53" using assms(3) by simp
  then have "round64 (of_int (int (digits_value s))) = Finite (of_int (int (digits_value s)))"
    by (rule round64_of_int)
  then show ?thesis
    by (simp add: Number_def decimal_literal_digits[OF assms(1,2)])
qed

lemma Number_formatUnits:
  "Number env (formatUnits (int n) decimals) = round64 (of_nat n / 10 ^ decimals)"
  by (simp add: Number_def formatUnits_exact)

lemma BigInt_digits:
  "s \<noteq> [] \<Longrightarrow> list_all is_digit s \<Longrightarrow> BigInt env s = Inr (int (digits_value s))"
  by (simp add: BigInt_def)

lemma seconds_to_Date:
  assumes "n \<le> 8640000000000"
  shows "new_Date (js_times (Finite (of_nat n)) (Finite 1000)) = Date (Some (int n * 1000))"
proof -
  have "\<bar>int n * 1000\<bar> < 2 ^ 53" using assms by simp
  then have "round64 (of_int (int n * 1000)) = Finite (of_int (int n * 1000))"
    by (rule round64_of_int)
  then have "js_times (Finite (of_nat n)) (Finite 1000) = Finite (of_int (int n * 1000))"
    by simp
  moreover have "\<not> 8640000000000000 < \<bar>rat_of_int (int n * 1000)\<bar>"
  proof -
    have "int n * 1000 \<le> 8640000000000000" using assms by simp
    then have "rat_of_int (int n * 1000) \<le> rat_of_int 8640000000000000"
      by (simp only: of_int_le_iff)
    then show ?thesis by simp
  qed
  ultimately show ?thesis
    by (simp del: of_int_mult of_int_of_nat_eq)
qed

lemma formatBet_Inr_iff:
  "formatBet env rawBet = Inr out \<longleftrightarrow>
     (\<exists>ca pa ja s w j b.
        getPreferredAlias env (RawBet.creator rawBet) = Inr ca \<and>
        getPreferredAlias env (RawBet.participant rawBet) = Inr pa \<and>
        getPreferredAlias env (RawBet.judge rawBet) = Inr ja \<and>
        readContracts env (read_calls (RawBet.contractAddress rawBet)) = Inr (s, w, j) \<and>
        BigInt env (RawBet.amount rawBet) = Inr b \<and>
        out = \<lparr>betId = Number env (id' rawBet),
                contractAddress = RawBet.contractAddress rawBet,
                creator = RawBet.creator rawBet,
                creatorAlias = ca,
                participant = RawBet.participant rawBet,
                participantAlias = pa,
                amount = Number env (formatUnits b 6),
                bigintAmount = b,
                token = RawBet.token rawBet,
                message = RawBet.message rawBet,
                judge = RawBet.judge rawBet,
                judgeAlias = ja,
                validUntil = new_Date (js_times (Number env (RawBet.validUntil rawBet)) (Finite 1000)),
                createdTime = new_Date (js_times (Number env (RawBet.createdTime rawBet)) (Finite 1000)),
                status = result s,
                winner = result w,
                judgementReason = result j\<rparr>)"
  by (auto simp: formatBet_def catch_rethrow_def split: sum.splits prod.splits)



lemma Promise_all_map_Inr: "Promise_all (map Inr vs) = Inr vs"
  by (induction vs) simp_all


lemma example_numbers:
  "Number env ''5'' = Finite 5"
  "Number env ''1700000000'' = Finite 1700000000"
  "Number env ''1690000000'' = Finite 1690000000"
  "BigInt env ''1500000'' = Inr 1500000"
  using Number_digits[of "''5''" env] Number_digits[of "''1700000000''" env]
    Number_digits[of "''1690000000''" env] BigInt_digits[of "''1500000''" env]
  by (simp_all add: is_digit_def digits_value_def digit_value_def)

lemma round64_three_halves: "round64 (3 / 2) = Finite (3 / 2)"
  using round64_exact[of 3 "- 1"] by simp

lemma example_dates:
  "new_Date (js_times (Finite 1700000000) (Finite 1000)) = Date (Some 1700000000000)"
  "new_Date (js_times (Finite 1690000000) (Finite 1000)) = Date (Some 1690000000000)"
  using seconds_to_Date[of 1700000000] seconds_to_Date[of 1690000000]
  by simp_all

lemma formatBet_example: "formatBet example_env example_bet = Inr example_formatted"
proof -
  have a: "Number example_env (formatUnits 1500000 6) = Finite (3 / 2)"
    using Number_formatUnits[of example_env 1500000 6] by (simp add: round64_three_halves)
  have "formatBet example_env example_bet = Inr \<lparr>betId = Number example_env ''5'',
          contractAddress = ''0x00000000219ab540356cbb839cbe05303d7705fa'',
          creator = ''0x1111111111111111111111111111111111111111'',
          creatorAlias = ''0x1111111111111111111111111111111111111111'',
          participant = ''0x2222222222222222222222222222222222222222'',
          participantAlias = ''0x2222222222222222222222222222222222222222'',
          amount = Number example_env (formatUnits 1500000 6),
          bigintAmount = 1500000,
          token = ''0x3333333333333333333333333333333333333333'',
          message = ''rain tomorrow'',
          judge = ''0x4444444444444444444444444444444444444444'',
          judgeAlias = ''0x4444444444444444444444444444444444444444'',
          validUntil = new_Date (js_times (Number example_env ''1700000000'') (Finite 1000)),
          createdTime = new_Date (js_times (Number example_env ''1690000000'') (Finite 1000)),
          status = Some ''pending'',
          winner = None,
          judgementReason = None\<rparr>"
    unfolding formatBet_Inr_iff
    by (simp add: example_bet_def example_numbers) (simp add: example_env_def)
  then show ?thesis
    by (simp only: example_numbers a example_dates example_formatted_def)
qed

lemma round64_2_53_1: "round64 9007199254740993 = Finite 9007199254740992"
  by code_simp

lemma get_property_Inl_iff: "(\<exists>e. get_property v key = Inl e) \<longleftrightarrow> nullish v"
  by (cases v) (auto simp: nullish_def split: option.splits)

lemma data_field_Inl_iff: "(\<exists>e. data_field r key = Inl e) \<longleftrightarrow> data_unreadable r"
proof (cases "get_property r ''data''")
  case (Inl e)
  then have "nullish r" using get_property_Inl_iff[of r "''data''"] by auto
  with Inl show ?thesis by (simp add: data_field_def data_unreadable_def)
next
  case (Inr d)
  then have "\<not> nullish r" using get_property_Inl_iff[of r "''data''"] by auto
  with Inr show ?thesis
    using get_property_Inl_iff[of d key] by (simp add: data_field_def data_unreadable_def)
qed


lemma fetch_field_Inl_iff:
  assumes "generated = Inr q" "fetch env (BET_API_URL env) (gql_request env q) = Inr res"
  shows "(\<exists>e. fetch_field env generated key = Inl e) \<longleftrightarrow>
     (\<exists>e. JSON_parse env (bodyText res) = Inl e) \<or>
     (\<exists>r. JSON_parse env (bodyText res) = Inr r \<and> data_unreadable r)"
proof (cases "JSON_parse env (bodyText res)")
  case (Inl e)
  then show ?thesis using assms by (simp add: fetch_field_def queryGqlApi_def)
next
  case (Inr r)
  then show ?thesis
    using assms data_field_Inl_iff[of r key] by (simp add: fetch_field_def queryGqlApi_def)
qed

lemma catch_rethrow_Inl_iff:
  "(\<exists>e. catch_rethrow msg r = Inl e) \<longleftrightarrow> (\<exists>e. r = Inl e)"
  by (cases r) (simp_all add: catch_rethrow_def)

lemma answering_simps:
  "BET_API_URL (answering code txt) = BET_API_URL example_env"
  "fetch (answering code txt) url req = Inr \<lparr>httpStatus = code, bodyText = txt\<rparr>"
  "JSON_parse (answering code txt) = example_JSON_parse"
  "generateBetQuery (answering code txt) i = Inr ''bet''"
  "generateBetsQuery (answering code txt) is = Inr ''bets''"
  "generateRecentBetsQuery (answering code txt) n p = Inr ''recent''"
  "generateUserBetsQuery (answering code txt) u n p = Inr ''user''"
  by (simp_all add: answering_def example_env_def)

lemma example_JSON_parse_simps:
  "example_JSON_parse bad_gateway_text = Inl (JsError ''SyntaxError'' ''Unexpected token'' None)"
  "example_JSON_parse null_data_text = Inr (JObject [(''data'', JNull)])"
  "example_JSON_parse empty_page_text = Inr (JObject [(''data'', JObject [(''bets'', empty_page)])])"
  "example_JSON_parse example_page_text = Inr (JObject [(''data'', JObject [(''bets'', example_page)])])"
  by (simp_all add: example_JSON_parse_def bad_gateway_text_def null_data_text_def
        empty_page_text_def example_page_text_def)

lemma raw_fetchers_answering:
  "getRawBetFromId (answering code txt) i =
     catch_rethrow ''Failed to get raw bet details from bet id''
       (case example_JSON_parse txt of Inl e \<Rightarrow> Inl e | Inr r \<Rightarrow> data_field r ''bet'')"
  "getRawBetsFromIds (answering code txt) is =
     catch_rethrow ''Failed to get raw bets from bet ids''
       (case example_JSON_parse txt of Inl e \<Rightarrow> Inl e | Inr r \<Rightarrow> data_field r ''bets'')"
  "getRecentRawBets (answering code txt) n p =
     catch_rethrow ''Failed to get recent raw bets''
       (case example_JSON_parse txt of Inl e \<Rightarrow> Inl e | Inr r \<Rightarrow> data_field r ''bets'')"
  "getUserRawBets (answering code txt) u n p =
     catch_rethrow ''Failed to get raw bet details for a user''
       (case example_JSON_parse txt of Inl e \<Rightarrow> Inl e | Inr r \<Rightarrow> data_field r ''bets'')"
  by (simp_all add: getRawBetFromId_def getRawBetsFromIds_def getRecentRawBets_def
        getUserRawBets_def fetch_field_def queryGqlApi_def answering_simps)

lemma RawBet_of_js: "RawBet_of (js_of_RawBet b) = Some b"
  by (simp add: js_of_RawBet_def string_property_def)

lemma formatBet_item_typed: "formatBet_item env (js_of_RawBet b) = formatBet env b"
  by (simp add: formatBet_item_def RawBet_of_js)












section \<open>Properties\<close>

text \<open>
  C1, as amended. When one of the three alias lookups rejects, or the batched
  \<^verbatim>\<open>readContracts\<close> call itself rejects, \<open>formatBet\<close> rejects with its fixed error and
  yields no FormattedBet.
\<close>

theorem formatBet_rejects_when_operation_rejects:
  "getPreferredAlias env (RawBet.creator rawBet) = Inl e \<or>
   getPreferredAlias env (RawBet.participant rawBet) = Inl e \<or>
   getPreferredAlias env (RawBet.judge rawBet) = Inl e \<or>
   readContracts env (read_calls (RawBet.contractAddress rawBet)) = Inl e \<Longrightarrow>
   formatBet env rawBet = Inl (Error ''Failed to format bets from raw bets'')"
  by (auto simp: formatBet_def catch_rethrow_def split: sum.splits)

theorem formatBet_rejects_when_operation_rejects_witness:
  "getPreferredAlias alias_down_env (RawBet.judge example_bet) = Inl (Error ''alias lookup failed'') \<and>
   formatBet alias_down_env example_bet = Inl (Error ''Failed to format bets from raw bets'') \<and>
   readContracts rpc_down_env (read_calls (RawBet.contractAddress example_bet)) =
     Inl (Error ''HTTP request failed'') \<and>
   formatBet rpc_down_env example_bet = Inl (Error ''Failed to format bets from raw bets'')"
  using formatBet_rejects_when_operation_rejects
          [of alias_down_env example_bet "Error ''alias lookup failed''"]
        formatBet_rejects_when_operation_rejects
          [of rpc_down_env example_bet "Error ''HTTP request failed''"]
  by (simp add: alias_down_env_def rpc_down_env_def example_env_def)

text \<open>
  C1 as stated fails: a read that fails inside a batch that resolved is an entry
  without \<^verbatim>\<open>result\<close>, and \<open>formatBet\<close> returns the bet with that field undefined.
  Here the \<^verbatim>\<open>winner\<close> and \<^verbatim>\<open>judgementReason\<close> reads failed.
\<close>

theorem formatBet_failed_read_counterexample:
  "readContracts example_env (read_calls (RawBet.contractAddress example_bet)) =
     Inr (success ''pending'', failure (Error ''reverted''), failure (Error ''reverted'')) \<and>
   formatBet example_env example_bet = Inr example_formatted \<and>
   status example_formatted = Some ''pending'' \<and>
   winner example_formatted = None \<and>
   judgementReason example_formatted = None"
  using formatBet_example by (simp add: example_env_def example_formatted_def)




text \<open>
  C3, as amended. For an amount given as decimal digits, the text that \<open>formatUnits\<close>
  builds denotes the raw amount divided by 10^6 exactly, and the \<open>amount\<close> field is
  the double nearest to that quotient: the quotient itself whenever it is a double
  (an integer below 2^53 in magnitude times a power of two within the range).
\<close>

theorem formatBet_amount:
  "RawBet.amount rawBet \<noteq> [] \<Longrightarrow> list_all is_digit (RawBet.amount rawBet) \<Longrightarrow>
   formatBet env rawBet = Inr out \<Longrightarrow>
   decimal_literal (formatUnits (bigintAmount out) 6) =
     Some (of_nat (digits_value (RawBet.amount rawBet)) / 10 ^ 6) \<and>
   amount out = round64 (of_nat (digits_value (RawBet.amount rawBet)) / 10 ^ 6) \<and>
   (\<forall>m j. \<bar>m\<bar> < 2 ^ 53 \<and> - 1074 \<le> j \<and>
          rat_of_nat (digits_value (RawBet.amount rawBet)) / 10 ^ 6 = of_int m * 2 powi j \<and>
          rat_of_nat (digits_value (RawBet.amount rawBet)) / 10 ^ 6 < 2 ^ 1024 \<longrightarrow>
          amount out = Finite (of_nat (digits_value (RawBet.amount rawBet)) / 10 ^ 6))"
proof -
  assume a: "RawBet.amount rawBet \<noteq> []" "list_all is_digit (RawBet.amount rawBet)"
    and f: "formatBet env rawBet = Inr out"
  define n where "n = digits_value (RawBet.amount rawBet)"
  have "BigInt env (RawBet.amount rawBet) = Inr (int n)"
    using a by (simp add: BigInt_digits n_def)
  with f have b: "bigintAmount out = int n" "amount out = Number env (formatUnits (int n) 6)"
    by (auto simp: formatBet_Inr_iff)
  then have r: "amount out = round64 (of_nat n / 10 ^ 6)"
    by (simp add: Number_formatUnits)
  have t: "decimal_literal (formatUnits (bigintAmount out) 6) = Some (of_nat n / 10 ^ 6)"
    unfolding b by (rule formatUnits_exact)
  have "amount out = Finite (of_nat n / 10 ^ 6)"
    if "\<bar>m\<bar> < 2 ^ 53" "- 1074 \<le> j" "rat_of_nat n / 10 ^ 6 = of_int m * 2 powi j"
       "rat_of_nat n / 10 ^ 6 < 2 ^ 1024" for m j
  proof -
    have "\<bar>of_int m * 2 powi j\<bar> = \<bar>rat_of_nat n / 10 ^ 6\<bar>"
      by (simp only: that(3))
    also have "\<dots> = rat_of_nat n / 10 ^ 6"
      by (rule abs_of_nonneg) simp
    also have "\<dots> < 2 ^ 1024"
      by (rule that(4))
    finally have "\<bar>of_int m * 2 powi j\<bar> < (2::rat) ^ 1024" .
    then have "round64 (of_int m * 2 powi j) = Finite (of_int m * 2 powi j)"
      using that(1,2) by (intro round64_exact)
    then show ?thesis using r that(3) by simp
  qed
  with r t show ?thesis unfolding n_def by blast
qed

theorem formatBet_amount_witness:
  "RawBet.amount example_bet \<noteq> [] \<and> list_all is_digit (RawBet.amount example_bet) \<and>
   digits_value (RawBet.amount example_bet) = 1500000 \<and>
   (1500000 :: rat) / 10 ^ 6 = of_int 3 * 2 powi (- 1) \<and>
   map_sum id amount (formatBet example_env example_bet) = Inr (Finite (3 / 2)) \<and>
   round64 (1500000 / 10 ^ 6) = Finite (3 / 2)"
proof -
  have a: "RawBet.amount example_bet \<noteq> []" "list_all is_digit (RawBet.amount example_bet)"
    and d: "digits_value (RawBet.amount example_bet) = 1500000"
    by (simp_all add: example_bet_def is_digit_def digits_value_def digit_value_def)
  have e: "(1500000 :: rat) / 10 ^ 6 = of_int 3 * 2 powi (- 1)" by simp
  from formatBet_amount[OF a formatBet_example] show ?thesis
    using a d e by (simp add: formatBet_example example_formatted_def)
qed

text \<open>
  C3 as stated fails where the quotient is no double: 9007199254740993000000 raw units
  are 2^53 + 1 tokens, \<open>bigintAmount\<close> keeps them, and \<open>amount\<close> is 2^53.
\<close>

theorem formatBet_amount_counterexample:
  "list_all is_digit (RawBet.amount big_bet) \<and>
   map_sum id bigintAmount (formatBet example_env big_bet) = Inr 9007199254740993000000 \<and>
   (9007199254740993000000 :: rat) / 10 ^ 6 = 9007199254740993 \<and>
   map_sum id amount (formatBet example_env big_bet) = Inr (Finite 9007199254740992)"
proof -
  have a: "RawBet.amount big_bet \<noteq> []" "list_all is_digit (RawBet.amount big_bet)"
    and d: "digits_value (RawBet.amount big_bet) = 9007199254740993000000"
    by (simp_all add: big_bet_def example_bet_def is_digit_def digits_value_def digit_value_def)
  have b: "BigInt example_env (RawBet.amount big_bet) = Inr 9007199254740993000000"
    using BigInt_digits[OF a, of example_env] d by simp
  have n: "Number example_env (formatUnits 9007199254740993000000 6) = Finite 9007199254740992"
    using Number_formatUnits[of example_env 9007199254740993000000 6]
    by (simp add: round64_2_53_1)
  obtain out where out: "formatBet example_env big_bet = Inr out"
    "bigintAmount out = 9007199254740993000000"
    "amount out = Number example_env (formatUnits 9007199254740993000000 6)"
    unfolding formatBet_Inr_iff b
    by (simp add: example_env_def)
  then show ?thesis using a n by simp
qed



text \<open>
  C5. When \<open>formatBet\<close> returns, \<open>status\<close>, \<open>winner\<close> and \<open>judgementReason\<close> are the
  results of the three reads of the batch: the value of a read that resolved, and
  undefined exactly for a read that failed.
\<close>

theorem formatBet_chain_fields:
  "formatBet env rawBet = Inr out \<Longrightarrow>
   readContracts env (read_calls (RawBet.contractAddress rawBet)) = Inr (s, w, j) \<Longrightarrow>
   status out = result s \<and> winner out = result w \<and> judgementReason out = result j \<and>
   (\<forall>v. s = success v \<longrightarrow> status out = Some v) \<and>
   (status out = None \<longleftrightarrow> (\<exists>e. s = failure e))"
  by (cases s) (auto simp: formatBet_Inr_iff)

theorem formatBet_chain_fields_witness:
  "formatBet example_env example_bet \<noteq> Inl (Error ''Failed to format bets from raw bets'') \<and>
   readContracts example_env (read_calls (RawBet.contractAddress example_bet)) =
     Inr (success ''pending'', failure (Error ''reverted''), failure (Error ''reverted'')) \<and>
   map_sum id status (formatBet example_env example_bet) = Inr (Some ''pending'') \<and>
   map_sum id winner (formatBet example_env example_bet) = Inr None \<and>
   map_sum id judgementReason (formatBet example_env example_bet) = Inr None"
  using formatBet_chain_fields
          [OF formatBet_example,
           of "success ''pending''" "failure (Error ''reverted'')" "failure (Error ''reverted'')"]
  by (simp add: formatBet_example) (simp add: example_env_def)

text \<open>
  C6. \<open>validUntil\<close> and \<open>createdTime\<close> are \<^verbatim>\<open>new Date(Number(raw) * 1000)\<close>; for decimal
  text of at most 8640000000000 seconds that is the date at seconds times 1000
  milliseconds.
\<close>

theorem formatBet_dates:
  "formatBet env rawBet = Inr out \<Longrightarrow>
   validUntil out = new_Date (js_times (Number env (RawBet.validUntil rawBet)) (Finite 1000)) \<and>
   createdTime out = new_Date (js_times (Number env (RawBet.createdTime rawBet)) (Finite 1000)) \<and>
   (RawBet.validUntil rawBet \<noteq> [] \<and> list_all is_digit (RawBet.validUntil rawBet) \<and>
    digits_value (RawBet.validUntil rawBet) \<le> 8640000000000 \<longrightarrow>
      validUntil out = Date (Some (int (digits_value (RawBet.validUntil rawBet)) * 1000))) \<and>
   (RawBet.createdTime rawBet \<noteq> [] \<and> list_all is_digit (RawBet.createdTime rawBet) \<and>
    digits_value (RawBet.createdTime rawBet) \<le> 8640000000000 \<longrightarrow>
      createdTime out = Date (Some (int (digits_value (RawBet.createdTime rawBet)) * 1000)))"
proof -
  assume f: "formatBet env rawBet = Inr out"
  have conv: "new_Date (js_times (Number env s) (Finite 1000)) = Date (Some (int (digits_value s) * 1000))"
    if "s \<noteq> []" "list_all is_digit s" "digits_value s \<le> 8640000000000" for s
  proof -
    have "digits_value s < 2 ^ 53" using that(3) by simp
    then have "Number env s = Finite (of_nat (digits_value s))"
      using that(1,2) by (intro Number_digits)
    then show ?thesis using seconds_to_Date[OF that(3)] by simp
  qed
  have v: "validUntil out = new_Date (js_times (Number env (RawBet.validUntil rawBet)) (Finite 1000))"
    and c: "createdTime out = new_Date (js_times (Number env (RawBet.createdTime rawBet)) (Finite 1000))"
    using f by (auto simp: formatBet_Inr_iff)
  show ?thesis
    unfolding v c using conv by blast
qed

theorem formatBet_dates_witness:
  "RawBet.validUntil example_bet = ''1700000000'' \<and>
   RawBet.createdTime example_bet = ''1690000000'' \<and>
   list_all is_digit ''1700000000'' \<and> list_all is_digit ''1690000000'' \<and>
   digits_value ''1700000000'' = 1700000000 \<and> digits_value ''1690000000'' = 1690000000 \<and>
   map_sum id validUntil (formatBet example_env example_bet) = Inr (Date (Some 1700000000000)) \<and>
   map_sum id createdTime (formatBet example_env example_bet) = Inr (Date (Some 1690000000000))"
proof -
  have e: "RawBet.validUntil example_bet = ''1700000000''"
    "RawBet.createdTime example_bet = ''1690000000''"
    by (simp_all add: example_bet_def)
  have d: "list_all is_digit ''1700000000''" "list_all is_digit ''1690000000''"
    "digits_value ''1700000000'' = 1700000000" "digits_value ''1690000000'' = 1690000000"
    by (simp_all add: is_digit_def digits_value_def digit_value_def)
  from formatBet_dates[OF formatBet_example] show ?thesis
    unfolding e using d by (simp add: formatBet_example example_formatted_def)
qed

text \<open>
  C7. For a raw bet with id 5, amount 1500000, validUntil 1700000000 and createdTime
  1690000000 whose lookups and reads resolve, \<open>formatBet\<close> returns betId 5, amount 1.5,
  bigintAmount 1500000 and the dates at 1700000000000 and 1690000000000 milliseconds.
  In general \<open>betId\<close> is \<^verbatim>\<open>Number(id)\<close> and \<open>bigintAmount\<close> is \<^verbatim>\<open>BigInt(amount)\<close>, the
  integer that the digits denote.
\<close>

theorem formatBet_scenario:
  "(id' rawBet = ''5'' \<and> RawBet.amount rawBet = ''1500000'' \<and>
    RawBet.validUntil rawBet = ''1700000000'' \<and> RawBet.createdTime rawBet = ''1690000000'' \<and>
    getPreferredAlias env (RawBet.creator rawBet) = Inr ca \<and>
    getPreferredAlias env (RawBet.participant rawBet) = Inr pa \<and>
    getPreferredAlias env (RawBet.judge rawBet) = Inr ja \<and>
    readContracts env (read_calls (RawBet.contractAddress rawBet)) = Inr r \<longrightarrow>
    (\<exists>out. formatBet env rawBet = Inr out \<and>
       betId out = Finite 5 \<and> amount out = Finite (3 / 2) \<and> bigintAmount out = 1500000 \<and>
       validUntil out = Date (Some 1700000000000) \<and>
       createdTime out = Date (Some 1690000000000))) \<and>
   (formatBet env bet = Inr out' \<longrightarrow>
      betId out' = Number env (id' bet) \<and>
      BigInt env (RawBet.amount bet) = Inr (bigintAmount out') \<and>
      (id' bet \<noteq> [] \<and> list_all is_digit (id' bet) \<and> digits_value (id' bet) < 2 ^ 53 \<longrightarrow>
         betId out' = Finite (of_nat (digits_value (id' bet)))) \<and>
      (RawBet.amount bet \<noteq> [] \<and> list_all is_digit (RawBet.amount bet) \<longrightarrow>
         bigintAmount out' = int (digits_value (RawBet.amount bet))))"
proof (intro conjI impI)
  assume h: "id' rawBet = ''5'' \<and> RawBet.amount rawBet = ''1500000'' \<and>
    RawBet.validUntil rawBet = ''1700000000'' \<and> RawBet.createdTime rawBet = ''1690000000'' \<and>
    getPreferredAlias env (RawBet.creator rawBet) = Inr ca \<and>
    getPreferredAlias env (RawBet.participant rawBet) = Inr pa \<and>
    getPreferredAlias env (RawBet.judge rawBet) = Inr ja \<and>
    readContracts env (read_calls (RawBet.contractAddress rawBet)) = Inr r"
  obtain s w j where r: "r = (s, w, j)" by (cases r)
  have a: "Number env (formatUnits 1500000 6) = Finite (3 / 2)"
    using Number_formatUnits[of env 1500000 6] by (simp add: round64_three_halves)
  show "\<exists>out. formatBet env rawBet = Inr out \<and>
       betId out = Finite 5 \<and> amount out = Finite (3 / 2) \<and> bigintAmount out = 1500000 \<and>
       validUntil out = Date (Some 1700000000000) \<and>
       createdTime out = Date (Some 1690000000000)"
    unfolding formatBet_Inr_iff using h r
    by (simp add: example_numbers a example_dates del: js_times.simps)
next
  assume f: "formatBet env bet = Inr out'"
  then show "betId out' = Number env (id' bet)"
    by (auto simp: formatBet_Inr_iff)
  from f show b: "BigInt env (RawBet.amount bet) = Inr (bigintAmount out')"
    by (auto simp: formatBet_Inr_iff)
  {
    assume "id' bet \<noteq> [] \<and> list_all is_digit (id' bet) \<and> digits_value (id' bet) < 2 ^ 53"
    then have "Number env (id' bet) = Finite (of_nat (digits_value (id' bet)))"
      by (intro Number_digits) simp_all
    with f show "betId out' = Finite (of_nat (digits_value (id' bet)))"
      by (auto simp: formatBet_Inr_iff)
  }
  {
    assume "RawBet.amount bet \<noteq> [] \<and> list_all is_digit (RawBet.amount bet)"
    then have "BigInt env (RawBet.amount bet) = Inr (int (digits_value (RawBet.amount bet)))"
      by (intro BigInt_digits) simp_all
    with b show "bigintAmount out' = int (digits_value (RawBet.amount bet))"
      by simp
  }
qed

theorem formatBet_scenario_witness:
  "id' example_bet = ''5'' \<and> RawBet.amount example_bet = ''1500000'' \<and>
   RawBet.validUntil example_bet = ''1700000000'' \<and>
   RawBet.createdTime example_bet = ''1690000000'' \<and>
   getPreferredAlias example_env (RawBet.creator example_bet) =
     Inr ''0x1111111111111111111111111111111111111111'' \<and>
   getPreferredAlias example_env (RawBet.participant example_bet) =
     Inr ''0x2222222222222222222222222222222222222222'' \<and>
   getPreferredAlias example_env (RawBet.judge example_bet) =
     Inr ''0x4444444444444444444444444444444444444444'' \<and>
   readContracts example_env (read_calls (RawBet.contractAddress example_bet)) =
     Inr (success ''pending'', failure (Error ''reverted''), failure (Error ''reverted'')) \<and>
   map_sum id betId (formatBet example_env example_bet) = Inr (Finite 5) \<and>
   map_sum id amount (formatBet example_env example_bet) = Inr (Finite (3 / 2)) \<and>
   map_sum id bigintAmount (formatBet example_env example_bet) = Inr 1500000 \<and>
   Number example_env (id' example_bet) = Finite 5 \<and>
   BigInt example_env (RawBet.amount example_bet) = Inr 1500000"
proof -
  have e: "id' example_bet = ''5''" "RawBet.amount example_bet = ''1500000''"
    "RawBet.validUntil example_bet = ''1700000000''"
    "RawBet.createdTime example_bet = ''1690000000''"
    "RawBet.creator example_bet = ''0x1111111111111111111111111111111111111111''"
    "RawBet.participant example_bet = ''0x2222222222222222222222222222222222222222''"
    "RawBet.judge example_bet = ''0x4444444444444444444444444444444444444444''"
    by (simp_all add: example_bet_def)
  have g: "getPreferredAlias example_env a = Inr a"
    "readContracts example_env c =
       Inr (success ''pending'', failure (Error ''reverted''), failure (Error ''reverted''))"
    for a c
    by (simp_all add: example_env_def)
  from formatBet_scenario
         [of example_bet example_env
             "''0x1111111111111111111111111111111111111111''"
             "''0x2222222222222222222222222222222222222222''"
             "''0x4444444444444444444444444444444444444444''"
             "(success ''pending'', failure (Error ''reverted''), failure (Error ''reverted''))"
             example_bet]
  show ?thesis
    unfolding e g by (simp add: formatBet_example example_formatted_def example_numbers)
qed

text \<open>
  C8. A path parameter that \<^verbatim>\<open>isAddress\<close> refuses makes \<open>retrieveTxn\<close> throw
  \<^verbatim>\<open>new Error()\<close>, whatever the framework's \<^verbatim>\<open>c.contract\<close> would do; a parameter
  that it accepts gives exactly the response that \<^verbatim>\<open>c.contract\<close> builds for
  \<^verbatim>\<open>retrieveTokens\<close> on that address, on chain eip155:42161.
\<close>

theorem retrieveTxn_address:
  "(\<not> isAddress env a \<longrightarrow>
      retrieveTxn env a = Inl (Error []) \<and>
      retrieveTxn (env\<lparr>contract := k\<rparr>) a = Inl (Error [])) \<and>
   (isAddress env a \<longrightarrow>
      retrieveTxn env a =
        contract env \<lparr>abi = betAbi, to = a, chainId = ''eip155:42161'',
                      functionName = ''retrieveTokens''\<rparr>)"
  by (simp add: retrieveTxn_def safeParse_def)

theorem retrieveTxn_address_witness:
  "\<not> isAddress example_bot_env ''vitalik.eth'' \<and>
   retrieveTxn example_bot_env ''vitalik.eth'' = Inl (Error []) \<and>
   retrieveTxn (example_bot_env\<lparr>contract := (\<lambda>p. Inl (Error ''unused''))\<rparr>) ''vitalik.eth'' =
     Inl (Error []) \<and>
   isAddress example_bot_env ''0x00000000219ab540356cbb839cbe05303d7705fa'' \<and>
   retrieveTxn example_bot_env ''0x00000000219ab540356cbb839cbe05303d7705fa'' =
     Inr \<lparr>abi = betAbi, to = ''0x00000000219ab540356cbb839cbe05303d7705fa'',
          chainId = ''eip155:42161'', functionName = ''retrieveTokens''\<rparr>"
  using retrieveTxn_address
          [of example_bot_env "''vitalik.eth''" "\<lambda>p. Inl (Error ''unused'')"]
        retrieveTxn_address
          [of example_bot_env "''0x00000000219ab540356cbb839cbe05303d7705fa''" Inr]
  by (simp add: example_bot_env_def is_lower_hex_def is_digit_def)



text \<open>
  C10, as amended. \<open>queryGqlApi\<close> resolves with the parsed body of whatever response
  the fetch gave, and gives the same result when the status of every response is
  replaced by another. Given a response, a raw fetcher rejects exactly when the body
  does not parse, or the parsed value or its \<^verbatim>\<open>data\<close> field is undefined or null.
\<close>

theorem queryGqlApi_ignores_status:
  "(fetch env url (gql_request env query) = Inr res \<longrightarrow>
      queryGqlApi env url query = JSON_parse env (bodyText res)) \<and>
   queryGqlApi
     (env\<lparr>fetch := \<lambda>u r. map_sum id (\<lambda>x. x\<lparr>httpStatus := code\<rparr>) (fetch env u r)\<rparr>) url query =
     queryGqlApi env url query \<and>
   (generateBetQuery env betId' = Inr q1 \<and>
    fetch env (BET_API_URL env) (gql_request env q1) = Inr res1 \<longrightarrow>
      ((\<exists>e. getRawBetFromId env betId' = Inl e) \<longleftrightarrow>
         (\<exists>e. JSON_parse env (bodyText res1) = Inl e) \<or>
         (\<exists>r. JSON_parse env (bodyText res1) = Inr r \<and> data_unreadable r))) \<and>
   (generateBetsQuery env betIds = Inr q2 \<and>
    fetch env (BET_API_URL env) (gql_request env q2) = Inr res2 \<longrightarrow>
      ((\<exists>e. getRawBetsFromIds env betIds = Inl e) \<longleftrightarrow>
         (\<exists>e. JSON_parse env (bodyText res2) = Inl e) \<or>
         (\<exists>r. JSON_parse env (bodyText res2) = Inr r \<and> data_unreadable r))) \<and>
   (generateRecentBetsQuery env numBets pg = Inr q3 \<and>
    fetch env (BET_API_URL env) (gql_request env q3) = Inr res3 \<longrightarrow>
      ((\<exists>e. getRecentRawBets env numBets pg = Inl e) \<longleftrightarrow>
         (\<exists>e. JSON_parse env (bodyText res3) = Inl e) \<or>
         (\<exists>r. JSON_parse env (bodyText res3) = Inr r \<and> data_unreadable r))) \<and>
   (generateUserBetsQuery env user numBets pg = Inr q4 \<and>
    fetch env (BET_API_URL env) (gql_request env q4) = Inr res4 \<longrightarrow>
      ((\<exists>e. getUserRawBets env user numBets pg = Inl e) \<longleftrightarrow>
         (\<exists>e. JSON_parse env (bodyText res4) = Inl e) \<or>
         (\<exists>r. JSON_parse env (bodyText res4) = Inr r \<and> data_unreadable r)))"
proof -
  have a: "fetch env url (gql_request env query) = Inr res \<longrightarrow>
      queryGqlApi env url query = JSON_parse env (bodyText res)"
    by (simp add: queryGqlApi_def)
  have b: "queryGqlApi
     (env\<lparr>fetch := \<lambda>u r. map_sum id (\<lambda>x. x\<lparr>httpStatus := code\<rparr>) (fetch env u r)\<rparr>) url query =
     queryGqlApi env url query"
    by (cases "fetch env url (gql_request env query)")
       (simp_all add: queryGqlApi_def gql_request_def)
  show ?thesis
    unfolding getRawBetFromId_def getRawBetsFromIds_def getRecentRawBets_def getUserRawBets_def
      catch_rethrow_Inl_iff
    using a b fetch_field_Inl_iff[of _ _ env] by blast
qed

theorem queryGqlApi_ignores_status_witness:
  "fetch (answering 502 bad_gateway_text) (BET_API_URL example_env)
      (gql_request (answering 502 bad_gateway_text) ''bet'') =
     Inr \<lparr>httpStatus = 502, bodyText = bad_gateway_text\<rparr> \<and>
   queryGqlApi (answering 502 bad_gateway_text) (BET_API_URL example_env) ''bet'' =
     Inl (JsError ''SyntaxError'' ''Unexpected token'' None) \<and>
   getRawBetFromId (answering 502 bad_gateway_text) (Finite 5) =
     Inl (Error ''Failed to get raw bet details from bet id'') \<and>
   queryGqlApi (answering 500 example_page_text) (BET_API_URL example_env) ''recent'' =
     Inr (JObject [(''data'', JObject [(''bets'', example_page)])]) \<and>
   \<not> data_unreadable (JObject [(''data'', JObject [(''bets'', example_page)])]) \<and>
   getRawBetsFromIds (answering 500 example_page_text) [Finite 5] = Inr example_page \<and>
   getRecentRawBets (answering 500 example_page_text) (Finite 6) None = Inr example_page \<and>
   getUserRawBets (answering 500 example_page_text)
       ''0x1111111111111111111111111111111111111111'' (Finite 6) None = Inr example_page"
  using queryGqlApi_ignores_status
          [of "answering 502 bad_gateway_text" "BET_API_URL example_env" "''bet''"
              "\<lparr>httpStatus = 502, bodyText = bad_gateway_text\<rparr>" 200 "Finite 5" "''bet''"
              "\<lparr>httpStatus = 502, bodyText = bad_gateway_text\<rparr>"]
        queryGqlApi_ignores_status
          [of "answering 500 example_page_text" "BET_API_URL example_env" "''recent''"
              "\<lparr>httpStatus = 500, bodyText = example_page_text\<rparr>" 200 "Finite 5" "''bet''"
              "\<lparr>httpStatus = 500, bodyText = example_page_text\<rparr>"
              "[Finite 5]" "''bets''" "\<lparr>httpStatus = 500, bodyText = example_page_text\<rparr>"
              "Finite 6" None "''recent''" "\<lparr>httpStatus = 500, bodyText = example_page_text\<rparr>"
              "''0x1111111111111111111111111111111111111111''" "''user''"
              "\<lparr>httpStatus = 500, bodyText = example_page_text\<rparr>"]
  by (simp add: answering_simps raw_fetchers_answering example_JSON_parse_simps catch_rethrow_def
        data_field_def data_unreadable_def nullish_def)

text \<open>
  C10 as stated fails on a body that is JSON and has a \<^verbatim>\<open>data\<close> field, which is
  null: reading \<^verbatim>\<open>.bet\<close> of null throws, and the fetcher rejects.
\<close>

theorem raw_fetcher_null_data_counterexample:
  "fetch (answering 500 null_data_text) (BET_API_URL (answering 500 null_data_text))
      (gql_request (answering 500 null_data_text) ''bet'') =
     Inr \<lparr>httpStatus = 500, bodyText = null_data_text\<rparr> \<and>
   JSON_parse (answering 500 null_data_text) null_data_text = Inr (JObject [(''data'', JNull)]) \<and>
   map_of [(''data'', JNull)] ''data'' = Some JNull \<and>
   getRawBetFromId (answering 500 null_data_text) (Finite 5) =
     Inl (Error ''Failed to get raw bet details from bet id'')"
  by (simp add: answering_simps raw_fetchers_answering example_JSON_parse_simps catch_rethrow_def
        data_field_def)

end
